theory Spec2Isabelle
  imports Main
begin

section \<open>The header \<open>gpd/util/system_print_color.h\<close>\<close>

text \<open>
  The header consists of object-like macros that name SGR code strings, the function-like
  macro \<open>MOD\<close> that wraps a code into an escape sequence, eight style-composition macros
  \<open>B_MOD_*\<close> and \<open>MOD_*\<close>, and seven print macros that insert into \<open>std::cout\<close>.

  A string literal is modelled by the list of its bytes (without the terminating zero that
  the compiler appends). Adjacent string literals are concatenated by the compiler, so the
  juxtaposition \<open>"a" "b"\<close> is \<open>a @ b\<close>.
\<close>

subsection \<open>Code strings\<close>

definition BOLD :: string where "BOLD = ''1''"
definition UNDRL :: string where "UNDRL = ''4''"

definition FGRED :: string where "FGRED = ''31''"
definition FGGREEN :: string where "FGGREEN = ''32''"
definition FGYELLOW :: string where "FGYELLOW = ''33''"
definition FGBLUE :: string where "FGBLUE = ''34''"
definition FGDEFAULT :: string where "FGDEFAULT = ''39''"
definition BGRED :: string where "BGRED = ''41''"
definition BGGREEN :: string where "BGGREEN = ''42''"
definition BGYELLOW :: string where "BGYELLOW = ''43''"
definition BGBLUE :: string where "BGBLUE = ''44''"
definition BGDEFAULT :: string where "BGDEFAULT = ''49''"

text \<open>The octal escape \<open>\033\<close> of the source is the byte \<open>3 * 8 + 3 = 27 = 0x1B\<close>.\<close>

definition ESC :: char where "ESC = char_of (3 * 8 + 3 :: nat)"

text \<open>\<open>#define MOD(x) "\033[" x "m"\<close> and \<open>#define RST MOD("0")\<close>.\<close>

definition MOD :: "string \<Rightarrow> string" where
  "MOD x = (ESC # ''['') @ x @ ''m''"

definition RST :: string where "RST = MOD ''0''"

subsection \<open>Operand chains and juxtaposition\<close>

text \<open>
  The print macros hand their variadic argument on to a composition macro, and the header's
  own example calls them with a chain of literals, \<open>PRINT_BGREEN("789"<<"258")\<close>. The
  argument of a composition macro is therefore a token sequence \<open>l1 << l2 << ... << ln\<close>
  of string literals, modelled by the list of its operands; the call with one literal is the
  singleton list and the call with no argument is the empty list.

  Placing a literal before such a token sequence concatenates it with the first operand,
  placing one after it concatenates it with the last operand, since \<open><<\<close> separates the
  literals in between. With no operand at all only the placed literal remains.
\<close>

type_synonym chain = "string list"

fun lit_then :: "string \<Rightarrow> chain \<Rightarrow> chain" where
  "lit_then p [] = [p]"
| "lit_then p (x # xs) = (p @ x) # xs"

fun then_lit :: "chain \<Rightarrow> string \<Rightarrow> chain" where
  "then_lit [] s = [s]"
| "then_lit [x] s = [x @ s]"
| "then_lit (x # y # ys) s = x # then_lit (y # ys) s"

subsection \<open>Style-composition macros\<close>

text \<open>\<open>#define B_MOD_RED(x) MOD(BOLD) MOD(FGRED) x RST\<close> and its seven siblings.\<close>

definition B_MOD_RED :: "chain \<Rightarrow> chain" where
  "B_MOD_RED x = lit_then (MOD BOLD) (lit_then (MOD FGRED) (then_lit x RST))"

definition B_MOD_GREEN :: "chain \<Rightarrow> chain" where
  "B_MOD_GREEN x = lit_then (MOD BOLD) (lit_then (MOD FGGREEN) (then_lit x RST))"

definition B_MOD_YELLOW :: "chain \<Rightarrow> chain" where
  "B_MOD_YELLOW x = lit_then (MOD BOLD) (lit_then (MOD FGYELLOW) (then_lit x RST))"

definition B_MOD_BLUE :: "chain \<Rightarrow> chain" where
  "B_MOD_BLUE x = lit_then (MOD BOLD) (lit_then (MOD FGBLUE) (then_lit x RST))"

definition MOD_RED :: "chain \<Rightarrow> chain" where
  "MOD_RED x = lit_then (MOD FGRED) (then_lit x RST)"

definition MOD_GREEN :: "chain \<Rightarrow> chain" where
  "MOD_GREEN x = lit_then (MOD FGGREEN) (then_lit x RST)"

definition MOD_YELLOW :: "chain \<Rightarrow> chain" where
  "MOD_YELLOW x = lit_then (MOD FGYELLOW) (then_lit x RST)"

definition MOD_BLUE :: "chain \<Rightarrow> chain" where
  "MOD_BLUE x = lit_then (MOD FGBLUE) (then_lit x RST)"

subsection \<open>Standard output\<close>

text \<open>
  The state of \<open>std::cout\<close> is the list of bytes written to it so far; the stream is taken
  to be in its good state. Inserting a string literal goes through the
  \<open>const char *\<close> overload of \<open>operator<<\<close>, which writes the bytes up to the first zero
  byte: a literal with an embedded \<open>\0\<close> is written only up to there. \<open>std::endl\<close> writes
  the newline character.
\<close>

type_synonym ostream = string

definition NUL :: char where "NUL = char_of (0 :: nat)"

definition newline :: char where "newline = CHR 0x0A"

definition c_str :: "string \<Rightarrow> string" where
  "c_str s = takeWhile (\<lambda>c. c \<noteq> NUL) s"

definition put :: "ostream \<Rightarrow> string \<Rightarrow> ostream" where
  "put out s = out @ c_str s"

definition endl :: "ostream \<Rightarrow> ostream" where
  "endl out = out @ [newline]"

subsection \<open>Print macros\<close>

text \<open>
  \<open>#define PRINT_BRED(...) {std::cout<<B_MOD_RED(__VA_ARGS__)<<std::endl;}\<close>: the operands
  of the expanded chain are inserted from left to right, then \<open>std::endl\<close>. The header
  defines print macros for red, green and blue, bold and unbolded, and the plain \<open>PRINT\<close>.
\<close>

definition PRINT_BRED :: "chain \<Rightarrow> ostream \<Rightarrow> ostream" where
  "PRINT_BRED va out = endl (foldl put out (B_MOD_RED va))"

definition PRINT_BGREEN :: "chain \<Rightarrow> ostream \<Rightarrow> ostream" where
  "PRINT_BGREEN va out = endl (foldl put out (B_MOD_GREEN va))"

definition PRINT_BBLUE :: "chain \<Rightarrow> ostream \<Rightarrow> ostream" where
  "PRINT_BBLUE va out = endl (foldl put out (B_MOD_BLUE va))"

definition PRINT_RED :: "chain \<Rightarrow> ostream \<Rightarrow> ostream" where
  "PRINT_RED va out = endl (foldl put out (MOD_RED va))"

definition PRINT_GREEN :: "chain \<Rightarrow> ostream \<Rightarrow> ostream" where
  "PRINT_GREEN va out = endl (foldl put out (MOD_GREEN va))"

definition PRINT_BLUE :: "chain \<Rightarrow> ostream \<Rightarrow> ostream" where
  "PRINT_BLUE va out = endl (foldl put out (MOD_BLUE va))"

text \<open>
  \<open>#define PRINT(...) {std::cout<<__VA_ARGS__<<std::endl;}\<close>: with no argument the
  expansion \<open>std::cout<< <<std::endl\<close> is not an expression, so the chain of \<open>PRINT\<close> has a
  first operand \<open>x\<close> and the remaining operands \<open>xs\<close>.
\<close>

definition PRINT :: "string \<Rightarrow> chain \<Rightarrow> ostream \<Rightarrow> ostream" where
  "PRINT x xs out = endl (foldl put out (x # xs))"

text \<open>The bytes that an operation on the stream appends to it.\<close>

definition written :: "(ostream \<Rightarrow> ostream) \<Rightarrow> ostream \<Rightarrow> string" where
  "written f out = drop (length out) (f out)"

subsection \<open>The operations of the specification\<close>

text \<open>
  The specification describes the header through an enumeration of style attributes, a code
  table, and the operations \<open>escape\<close>, \<open>styled\<close> and \<open>printLine\<close>. The enumeration and the
  table collect the code macros of the header (\<open>Reset\<close> has no code macro of its own: its
  code is the literal \<open>"0"\<close> in the definition of \<open>RST\<close>), and \<open>escape\<close> is \<open>MOD\<close> on the
  code. \<open>styled_spec\<close> and \<open>printLine_spec\<close> follow the words of the specification; the
  macros of the header are compared with them below.
\<close>

datatype attribute =
    Bold | Underline
  | FgRed | FgGreen | FgYellow | FgBlue | FgDefault
  | BgRed | BgGreen | BgYellow | BgBlue | BgDefault
  | Reset

fun code :: "attribute \<Rightarrow> string" where
  "code Bold = BOLD"
| "code Underline = UNDRL"
| "code FgRed = FGRED"
| "code FgGreen = FGGREEN"
| "code FgYellow = FGYELLOW"
| "code FgBlue = FGBLUE"
| "code FgDefault = FGDEFAULT"
| "code BgRed = BGRED"
| "code BgGreen = BGGREEN"
| "code BgYellow = BGYELLOW"
| "code BgBlue = BGBLUE"
| "code BgDefault = BGDEFAULT"
| "code Reset = ''0''"

definition escape :: "attribute \<Rightarrow> string" where
  "escape a = MOD (code a)"

definition styled_spec :: "attribute list \<Rightarrow> string \<Rightarrow> string" where
  "styled_spec attributes payload = concat (map escape attributes) @ payload @ escape Reset"

definition printLine_spec :: "string \<Rightarrow> ostream \<Rightarrow> ostream" where
  "printLine_spec text out = out @ text @ [newline]"

text \<open>
  The escape sequences found in a byte string, one entry for every \<open>ESC\<close> byte in it:
  when the byte is followed by \<open>[\<close> and a later \<open>m\<close>, the bytes between the two,
  otherwise \<open>None\<close>.
\<close>

definition sgr_code :: "string \<Rightarrow> string option" where
  "sgr_code cs =
     (case cs of
        [] \<Rightarrow> None
      | d # ds \<Rightarrow>
          if d = CHR ''['' \<and> CHR ''m'' \<in> set ds
          then Some (takeWhile (\<lambda>e. e \<noteq> CHR ''m'') ds)
          else None)"

fun sgr_codes :: "string \<Rightarrow> string option list" where
  "sgr_codes [] = []"
| "sgr_codes (c # cs) = (if c = ESC then sgr_code cs # sgr_codes cs else sgr_codes cs)"

definition emitted_codes :: "string list" where
  "emitted_codes = [''1'', ''31'', ''32'', ''33'', ''34'', ''0'']"

definition unused_codes :: "string list" where
  "unused_codes = [UNDRL, FGDEFAULT, BGRED, BGGREEN, BGYELLOW, BGBLUE, BGDEFAULT]"

text \<open>A byte string all of whose escape sequences carry one of the codes in use.\<close>

definition only_emitted_codes :: "string \<Rightarrow> bool" where
  "only_emitted_codes s = (set (sgr_codes s) \<subseteq> Some ` set emitted_codes)"

section \<open>Basic facts\<close>

subsection \<open>Juxtaposition and insertion\<close>

lemma ESC_byte: "ESC = CHR 0x1B"
  unfolding ESC_def by code_simp

lemma NUL_byte: "NUL = CHR 0x00"
  unfolding NUL_def by code_simp

lemmas code_defs = BOLD_def UNDRL_def FGRED_def FGGREEN_def FGYELLOW_def FGBLUE_def
  FGDEFAULT_def BGRED_def BGGREEN_def BGYELLOW_def BGBLUE_def BGDEFAULT_def

lemma concat_lit_then: "concat (lit_then p xs) = p @ concat xs"
  by (cases xs) simp_all

lemma concat_then_lit: "concat (then_lit xs s) = concat xs @ s"
  by (induction xs s rule: then_lit.induct) simp_all

lemma then_lit_not_Nil: "then_lit xs s \<noteq> []"
  by (induction xs s rule: then_lit.induct) simp_all

lemma butlast_then_lit: "butlast (then_lit xs s) = butlast xs"
  by (induction xs s rule: then_lit.induct) (simp_all add: then_lit_not_Nil)

lemma set_butlast_lit_then:
  "y \<in> set (butlast (lit_then p xs)) \<Longrightarrow> xs \<noteq> [] \<and> (y = p @ hd xs \<or> y \<in> set (butlast xs))"
  by (cases xs) (auto split: if_splits)

lemma foldl_put: "foldl put out ys = out @ concat (map c_str ys)"
  by (induction ys arbitrary: out) (simp_all add: put_def)

lemma c_str_append: "NUL \<notin> set a \<Longrightarrow> c_str (a @ b) = a @ c_str b"
  by (induction a) (auto simp add: c_str_def)

lemma c_str_id: "NUL \<notin> set s \<Longrightarrow> c_str s = s"
  using c_str_append [of s "[]"] by (simp add: c_str_def)

lemma c_str_concat:
  "\<forall>y\<in>set (butlast ys). NUL \<notin> set y \<Longrightarrow> concat (map c_str ys) = c_str (concat ys)"
proof (induction ys)
  case Nil
  show ?case by (simp add: c_str_def)
next
  case (Cons y ys)
  show ?case
  proof (cases ys)
    case Nil
    then show ?thesis by simp
  next
    case (Cons z zs)
    with Cons.prems have y: "NUL \<notin> set y" and rest: "\<forall>y\<in>set (butlast ys). NUL \<notin> set y"
      by simp_all
    from Cons.IH [OF rest] y show ?thesis by (simp add: c_str_append c_str_id)
  qed
qed

lemma NUL_notin_RST: "NUL \<notin> set RST"
  by (simp add: RST_def MOD_def NUL_byte ESC_byte)


text \<open>What a composition macro expands to, seen as one byte string.\<close>

lemma concat_wrap1: "concat (lit_then p (then_lit xs s)) = p @ concat xs @ s"
  by (simp add: concat_lit_then concat_then_lit)

lemma concat_wrap2:
  "concat (lit_then p (lit_then q (then_lit xs s))) = p @ q @ concat xs @ s"
  by (simp add: concat_lit_then concat_then_lit)

lemma butlast_wrap1:
  assumes "y \<in> set (butlast (lit_then p (then_lit xs s)))"
  shows "y \<in> set (butlast xs) \<or> (\<exists>x \<in> set (butlast xs). y = p @ x)"
proof -
  from set_butlast_lit_then [OF assms]
  have "y = p @ hd (then_lit xs s) \<or> y \<in> set (butlast xs)"
    by (simp add: butlast_then_lit)
  moreover have "?thesis" if "y = p @ hd (then_lit xs s)"
  proof (cases xs)
    case Nil
    with assms show ?thesis by simp
  next
    case (Cons a as)
    show ?thesis
    proof (cases as)
      case Nil
      with Cons assms show ?thesis by simp
    next
      case (Cons b bs)
      with \<open>xs = a # as\<close> that show ?thesis by simp
    qed
  qed
  ultimately show ?thesis by blast
qed

lemma written_wrap1:
  assumes "\<forall>f\<in>set (butlast xs). NUL \<notin> set f" and "NUL \<notin> set p"
  shows "foldl put out (lit_then p (then_lit xs s)) = out @ c_str (p @ concat xs @ s)"
proof -
  have "\<forall>y\<in>set (butlast (lit_then p (then_lit xs s))). NUL \<notin> set y"
  proof
    fix y assume "y \<in> set (butlast (lit_then p (then_lit xs s)))"
    from butlast_wrap1 [OF this] assms show "NUL \<notin> set y" by auto
  qed
  from c_str_concat [OF this] show ?thesis
    by (simp add: foldl_put concat_wrap1)
qed

lemma written_wrap2:
  assumes "\<forall>f\<in>set (butlast xs). NUL \<notin> set f" and "NUL \<notin> set p" and "NUL \<notin> set q"
  shows "foldl put out (lit_then p (lit_then q (then_lit xs s)))
         = out @ c_str (p @ q @ concat xs @ s)"
proof -
  have *: "lit_then p (lit_then q ys) = lit_then (p @ q) ys" for ys
    by (cases ys) simp_all
  from assms have "NUL \<notin> set (p @ q)" by simp
  from written_wrap1 [OF assms(1) this] show ?thesis by (simp add: *)
qed

lemmas styled_defs = B_MOD_RED_def B_MOD_GREEN_def B_MOD_YELLOW_def B_MOD_BLUE_def
  MOD_RED_def MOD_GREEN_def MOD_YELLOW_def MOD_BLUE_def

lemmas print_defs = PRINT_BRED_def PRINT_BGREEN_def PRINT_BBLUE_def
  PRINT_RED_def PRINT_GREEN_def PRINT_BLUE_def

subsection \<open>Bytes written by the print macros\<close>

lemma NUL_notin_codes:
  "NUL \<notin> set (MOD BOLD)" "NUL \<notin> set (MOD FGRED)" "NUL \<notin> set (MOD FGGREEN)"
  "NUL \<notin> set (MOD FGYELLOW)" "NUL \<notin> set (MOD FGBLUE)"
  by (simp_all add: MOD_def code_defs NUL_byte ESC_byte)

lemma print_wrap1:
  assumes "\<forall>f\<in>set (butlast va). NUL \<notin> set f" and "NUL \<notin> set p"
  shows "endl (foldl put out (lit_then p (then_lit va s)))
         = out @ c_str (p @ concat va @ s) @ [newline]"
  using written_wrap1 [OF assms] by (simp add: endl_def)

lemma print_wrap2:
  assumes "\<forall>f\<in>set (butlast va). NUL \<notin> set f" and "NUL \<notin> set p" and "NUL \<notin> set q"
  shows "endl (foldl put out (lit_then p (lit_then q (then_lit va s))))
         = out @ c_str (p @ q @ concat va @ s) @ [newline]"
  using written_wrap2 [OF assms] by (simp add: endl_def)

lemma butlast_single: "\<forall>f\<in>set (butlast [x]). NUL \<notin> set f"
  by simp

lemma butlast_free: "\<forall>f\<in>set va. NUL \<notin> set f \<Longrightarrow> \<forall>f\<in>set (butlast va). NUL \<notin> set f"
  by (auto dest: in_set_butlastD)

lemma bold_print_bytes:
  assumes "\<forall>f\<in>set (butlast va). NUL \<notin> set f"
  shows "PRINT_BRED va out
           = out @ c_str (MOD BOLD @ MOD FGRED @ concat va @ RST) @ [newline]"
    and "PRINT_BGREEN va out
           = out @ c_str (MOD BOLD @ MOD FGGREEN @ concat va @ RST) @ [newline]"
    and "PRINT_BBLUE va out
           = out @ c_str (MOD BOLD @ MOD FGBLUE @ concat va @ RST) @ [newline]"
  unfolding PRINT_BRED_def PRINT_BGREEN_def PRINT_BBLUE_def
    B_MOD_RED_def B_MOD_GREEN_def B_MOD_BLUE_def
  by (rule print_wrap2 [OF assms]; simp add: NUL_notin_codes)+

lemma plain_colour_print_bytes:
  assumes "\<forall>f\<in>set (butlast va). NUL \<notin> set f"
  shows "PRINT_RED va out = out @ c_str (MOD FGRED @ concat va @ RST) @ [newline]"
    and "PRINT_GREEN va out = out @ c_str (MOD FGGREEN @ concat va @ RST) @ [newline]"
    and "PRINT_BLUE va out = out @ c_str (MOD FGBLUE @ concat va @ RST) @ [newline]"
  unfolding PRINT_RED_def PRINT_GREEN_def PRINT_BLUE_def
    MOD_RED_def MOD_GREEN_def MOD_BLUE_def
  by (rule print_wrap1 [OF assms]; simp add: NUL_notin_codes)+

lemmas print_bytes = bold_print_bytes plain_colour_print_bytes

subsection \<open>Escape sequences in a byte string\<close>

lemma sgr_codes_skip: "ESC \<notin> set a \<Longrightarrow> sgr_codes (a @ b) = sgr_codes b"
  by (induction a) auto

lemma sgr_codes_none: "ESC \<notin> set a \<Longrightarrow> sgr_codes a = []"
  using sgr_codes_skip [of a "[]"] by simp

lemma sgr_codes_MOD:
  assumes "ESC \<notin> set c" and "CHR ''m'' \<notin> set c"
  shows "sgr_codes (MOD c @ b) = Some c # sgr_codes b"
proof -
  have tw: "takeWhile (\<lambda>e. e \<noteq> CHR ''m'') (c @ CHR ''m'' # b) = c"
    using assms(2) by (induction c) auto
  have "ESC \<notin> set (c @ ''m'')"
    using assms(1) by (simp add: ESC_byte)
  from sgr_codes_skip [OF this, of b]
  have rest: "sgr_codes (c @ CHR ''m'' # b) = sgr_codes b" by simp
  show ?thesis
    by (simp add: MOD_def sgr_code_def tw rest ESC_byte)
qed

lemma sgr_codes_RST: "sgr_codes (RST @ b) = Some ''0'' # sgr_codes b"
  unfolding RST_def by (rule sgr_codes_MOD) (simp_all add: ESC_byte)

lemma sgr_codes_colour:
  "sgr_codes (MOD BOLD @ b) = Some ''1'' # sgr_codes b"
  "sgr_codes (MOD FGRED @ b) = Some ''31'' # sgr_codes b"
  "sgr_codes (MOD FGGREEN @ b) = Some ''32'' # sgr_codes b"
  "sgr_codes (MOD FGYELLOW @ b) = Some ''33'' # sgr_codes b"
  "sgr_codes (MOD FGBLUE @ b) = Some ''34'' # sgr_codes b"
  unfolding code_defs by (rule sgr_codes_MOD; simp add: ESC_byte)+

lemma c_str_cut: "NUL \<in> set a \<Longrightarrow> c_str (a @ b) = c_str a"
  by (induction a) (auto simp add: c_str_def)

lemma ESC_notin_c_str: "ESC \<notin> set a \<Longrightarrow> ESC \<notin> set (c_str a)"
  unfolding c_str_def by (auto dest: set_takeWhileD)

lemma sgr_codes_last_operand:
  assumes "ESC \<notin> set x" and "ESC \<notin> set t"
  shows "set (sgr_codes (c_str (x @ RST) @ t)) \<subseteq> {Some ''0''}"
proof (cases "NUL \<in> set x")
  case True
  from assms have "ESC \<notin> set (c_str x @ t)" by (simp add: ESC_notin_c_str)
  then show ?thesis by (simp add: c_str_cut [OF True] sgr_codes_none)
next
  case False
  have "c_str (x @ RST) = x @ RST"
    using False NUL_notin_RST by (simp add: c_str_id)
  then show ?thesis
    using assms by (simp add: sgr_codes_skip sgr_codes_RST sgr_codes_none)
qed

lemma sgr_codes_then_lit:
  assumes "\<forall>f\<in>set va. ESC \<notin> set f" and "ESC \<notin> set t"
  shows "set (sgr_codes (concat (map c_str (then_lit va RST)) @ t)) \<subseteq> {Some ''0''}"
  using assms(1)
proof (induction va RST rule: then_lit.induct)
  case 1
  have "set (sgr_codes (c_str ([] @ RST) @ t)) \<subseteq> {Some ''0''}"
    by (rule sgr_codes_last_operand) (simp_all add: assms(2))
  then show ?case by simp
next
  case (2 x)
  then have "set (sgr_codes (c_str (x @ RST) @ t)) \<subseteq> {Some ''0''}"
    by (intro sgr_codes_last_operand) (simp_all add: assms(2))
  then show ?case by simp
next
  case (3 x y ys)
  then have "ESC \<notin> set (c_str x)" by (simp add: ESC_notin_c_str)
  from sgr_codes_skip [OF this] 3 show ?case by simp
qed

lemma c_str_lit_then:
  assumes "NUL \<notin> set p" and "xs \<noteq> []"
  shows "concat (map c_str (lit_then p xs)) = p @ concat (map c_str xs)"
  using assms by (cases xs) (simp_all add: c_str_append)

lemma written_print:
  "written (\<lambda>out. endl (foldl put out ys)) out = concat (map c_str ys) @ [newline]"
  by (simp add: written_def endl_def foldl_put)

lemma ESC_notin_newline: "ESC \<notin> set [newline]"
  by (simp add: newline_def ESC_byte)

lemma print_wrap1_codes:
  assumes "\<forall>f\<in>set va. ESC \<notin> set f" and "NUL \<notin> set p"
  shows "sgr_codes (concat (map c_str (lit_then p (then_lit va RST))) @ [newline])
         = sgr_codes (p @ concat (map c_str (then_lit va RST)) @ [newline])"
  by (simp add: c_str_lit_then [OF assms(2) then_lit_not_Nil])

lemma print_wrap2_codes:
  assumes "\<forall>f\<in>set va. ESC \<notin> set f" and "NUL \<notin> set p" and "NUL \<notin> set q"
  shows "sgr_codes (concat (map c_str (lit_then p (lit_then q (then_lit va RST)))) @ [newline])
         = sgr_codes (p @ q @ concat (map c_str (then_lit va RST)) @ [newline])"
proof -
  have "lit_then q (then_lit va RST) \<noteq> []"
    by (cases "then_lit va RST") simp_all
  from c_str_lit_then [OF assms(2) this] show ?thesis
    by (simp add: c_str_lit_then [OF assms(3) then_lit_not_Nil])
qed

lemma tail_codes:
  assumes "\<forall>f\<in>set va. ESC \<notin> set f"
  shows "set (sgr_codes (concat (map c_str (then_lit va RST)) @ [newline])) \<subseteq> {Some ''0''}"
  by (rule sgr_codes_then_lit [OF assms ESC_notin_newline])

lemma print_only_emitted:
  assumes "\<forall>f\<in>set va. ESC \<notin> set f"
  shows "only_emitted_codes (written (PRINT_BRED va) out)"
    and "only_emitted_codes (written (PRINT_BGREEN va) out)"
    and "only_emitted_codes (written (PRINT_BBLUE va) out)"
    and "only_emitted_codes (written (PRINT_RED va) out)"
    and "only_emitted_codes (written (PRINT_GREEN va) out)"
    and "only_emitted_codes (written (PRINT_BLUE va) out)"
  using tail_codes [OF assms]
  unfolding only_emitted_codes_def print_defs styled_defs written_print
  by (auto simp add: print_wrap1_codes [OF assms] print_wrap2_codes [OF assms] NUL_notin_codes
      sgr_codes_colour emitted_codes_def)

lemma styled_only_emitted:
  assumes "\<forall>f\<in>set va. ESC \<notin> set f"
  shows "only_emitted_codes (concat (B_MOD_RED va))"
    and "only_emitted_codes (concat (B_MOD_GREEN va))"
    and "only_emitted_codes (concat (B_MOD_YELLOW va))"
    and "only_emitted_codes (concat (B_MOD_BLUE va))"
    and "only_emitted_codes (concat (MOD_RED va))"
    and "only_emitted_codes (concat (MOD_GREEN va))"
    and "only_emitted_codes (concat (MOD_YELLOW va))"
    and "only_emitted_codes (concat (MOD_BLUE va))"
proof -
  from assms have "ESC \<notin> set (concat va)" by auto
  from sgr_codes_skip [OF this, of RST]
  have "sgr_codes (concat va @ RST) = [Some ''0'']"
    using sgr_codes_RST [of "[]"] by simp
  then show "only_emitted_codes (concat (B_MOD_RED va))"
    and "only_emitted_codes (concat (B_MOD_GREEN va))"
    and "only_emitted_codes (concat (B_MOD_YELLOW va))"
    and "only_emitted_codes (concat (B_MOD_BLUE va))"
    and "only_emitted_codes (concat (MOD_RED va))"
    and "only_emitted_codes (concat (MOD_GREEN va))"
    and "only_emitted_codes (concat (MOD_YELLOW va))"
    and "only_emitted_codes (concat (MOD_BLUE va))"
    unfolding only_emitted_codes_def styled_defs concat_wrap1 concat_wrap2
    by (simp_all add: sgr_codes_colour emitted_codes_def)
qed

lemma plain_no_codes:
  assumes "\<forall>f\<in>set (x # va). ESC \<notin> set f"
  shows "sgr_codes (written (PRINT x va) out) = []"
proof -
  have "ESC \<notin> set (concat (map c_str (x # va)))"
    using assms by (auto simp add: ESC_notin_c_str)
  then have "ESC \<notin> set (concat (map c_str (x # va)) @ [newline])"
    using ESC_notin_newline by simp
  from sgr_codes_none [OF this] show ?thesis
    unfolding PRINT_def written_print .
qed


section \<open>The claims\<close>

text \<open>
  Claim C2. For every style attribute \<open>a\<close>, \<open>escape a\<close> is the byte \<open>0x1B\<close>, then \<open>[\<close>, then
  the code of \<open>a\<close>, then \<open>m\<close>, and the codes are those of the table: Bold 1, Underline 4,
  foreground red, green, yellow, blue, default 31, 32, 33, 34, 39, background red, green,
  yellow, blue, default 41, 42, 43, 44, 49, Reset 0. The escape sequence of Reset is the
  macro \<open>RST\<close>.
\<close>

theorem escape_table:
  "escape a = CHR 0x1B # CHR ''['' # code a @ [CHR ''m''] \<and>
   escape Bold = CHR 0x1B # ''[1m'' \<and>
   escape Underline = CHR 0x1B # ''[4m'' \<and>
   escape FgRed = CHR 0x1B # ''[31m'' \<and>
   escape FgGreen = CHR 0x1B # ''[32m'' \<and>
   escape FgYellow = CHR 0x1B # ''[33m'' \<and>
   escape FgBlue = CHR 0x1B # ''[34m'' \<and>
   escape FgDefault = CHR 0x1B # ''[39m'' \<and>
   escape BgRed = CHR 0x1B # ''[41m'' \<and>
   escape BgGreen = CHR 0x1B # ''[42m'' \<and>
   escape BgYellow = CHR 0x1B # ''[43m'' \<and>
   escape BgBlue = CHR 0x1B # ''[44m'' \<and>
   escape BgDefault = CHR 0x1B # ''[49m'' \<and>
   escape Reset = CHR 0x1B # ''[0m'' \<and>
   escape Reset = RST"
  by (simp add: escape_def MOD_def RST_def ESC_byte code_defs)

text \<open>
  Claim C1. \<open>styled\<close> on an attribute sequence and a payload is the concatenation of the
  escape sequences of the attributes in order, then the payload, then the escape sequence of
  Reset. Each of the eight composition macros of the header, applied to one literal \<open>x\<close>,
  expands to the single literal that \<open>styled\<close> gives for its fixed attribute sequence, and
  \<open>B_MOD_RED("hi")\<close> is the literal \<open>"\x1B[1m\x1B[31mhi\x1B[0m"\<close>. The composition macros
  yield literals and take no stream: nothing is written.
\<close>

theorem styled_compositions:
  "(\<forall>attributes payload.
      styled_spec attributes payload
      = concat (map escape attributes) @ payload @ escape Reset) \<and>
   B_MOD_RED [x] = [styled_spec [Bold, FgRed] x] \<and>
   B_MOD_GREEN [x] = [styled_spec [Bold, FgGreen] x] \<and>
   B_MOD_YELLOW [x] = [styled_spec [Bold, FgYellow] x] \<and>
   B_MOD_BLUE [x] = [styled_spec [Bold, FgBlue] x] \<and>
   MOD_RED [x] = [styled_spec [FgRed] x] \<and>
   MOD_GREEN [x] = [styled_spec [FgGreen] x] \<and>
   MOD_YELLOW [x] = [styled_spec [FgYellow] x] \<and>
   MOD_BLUE [x] = [styled_spec [FgBlue] x] \<and>
   B_MOD_RED [''hi''] = [CHR 0x1B # ''[1m'' @ CHR 0x1B # ''[31mhi'' @ CHR 0x1B # ''[0m''] \<and>
   styled_spec [Bold, FgRed] ''hi''
     = CHR 0x1B # ''[1m'' @ CHR 0x1B # ''[31mhi'' @ CHR 0x1B # ''[0m''"
  by (simp add: styled_defs styled_spec_def escape_def RST_def MOD_def ESC_byte code_defs)

text \<open>
  Claim C8. \<open>styled\<close> on the empty attribute sequence and the payload \<open>"x"\<close> is
  \<open>"x\x1B[0m"\<close>: the Reset sequence is appended also when no attribute precedes the
  payload. In the header this is the juxtaposition \<open>"x" RST\<close>.
\<close>

theorem styled_no_attributes:
  "styled_spec [] ''x'' = ''x'' @ CHR 0x1B # ''[0m'' \<and>
   then_lit [''x''] RST = [''x'' @ CHR 0x1B # ''[0m'']"
  by (simp add: styled_spec_def escape_def RST_def MOD_def ESC_byte)

text \<open>
  Claim C9. For each of the colours red, green, yellow and blue, the bold composition is the
  unbolded composition with the escape sequence of Bold placed before it: on every operand
  chain, and in particular on a single literal \<open>x\<close>, where both are single literals.
\<close>

theorem bold_is_prefix:
  "B_MOD_RED va = lit_then (escape Bold) (MOD_RED va) \<and>
   B_MOD_GREEN va = lit_then (escape Bold) (MOD_GREEN va) \<and>
   B_MOD_YELLOW va = lit_then (escape Bold) (MOD_YELLOW va) \<and>
   B_MOD_BLUE va = lit_then (escape Bold) (MOD_BLUE va) \<and>
   B_MOD_RED [x] = [escape Bold @ concat (MOD_RED [x])] \<and>
   B_MOD_GREEN [x] = [escape Bold @ concat (MOD_GREEN [x])] \<and>
   B_MOD_YELLOW [x] = [escape Bold @ concat (MOD_YELLOW [x])] \<and>
   B_MOD_BLUE [x] = [escape Bold @ concat (MOD_BLUE [x])]"
  by (simp add: styled_defs escape_def)

text \<open>
  Claim C4. \<open>PRINT_BRED("123")\<close> appends exactly the bytes \<open>"\x1B[1m\x1B[31m123\x1B[0m\n"\<close>
  to standard output: the Bold sequence, the foreground-red sequence, the payload, the Reset
  sequence and the newline, and nothing else.
\<close>

theorem print_bold_red_123:
  "PRINT_BRED [''123''] out
     = out @ CHR 0x1B # ''[1m'' @ CHR 0x1B # ''[31m123'' @ CHR 0x1B # ''[0m'' @ [CHR 0x0A] \<and>
   written (PRINT_BRED [''123'']) out
     = CHR 0x1B # ''[1m'' @ CHR 0x1B # ''[31m123'' @ CHR 0x1B # ''[0m'' @ [CHR 0x0A]"
  by (simp add: written_def PRINT_BRED_def B_MOD_RED_def endl_def put_def c_str_def
      newline_def RST_def MOD_def BOLD_def FGRED_def ESC_byte NUL_byte)

text \<open>
  Claim C6. \<open>PRINT("abc")\<close> appends exactly the bytes \<open>"abc\n"\<close> to standard output, with
  no escape sequence.
\<close>

theorem print_plain_abc:
  "PRINT ''abc'' [] out = out @ ''abc'' @ [CHR 0x0A] \<and>
   written (PRINT ''abc'' []) out = ''abc'' @ [CHR 0x0A]"
  by (simp add: written_def PRINT_def endl_def put_def c_str_def newline_def NUL_byte)

text \<open>
  Claim C3, as stated, fails twice. None of the seven print macros of the header prints the
  bold-yellow or the yellow styling of a payload: the header has no print macro for yellow.
  And a payload with a zero byte is not printed as \<open>printLine(styled(...))\<close>:
  \<open>PRINT_RED("a\0b")\<close> writes \<open>"\x1B[31ma\n"\<close>, without the rest of the payload and
  without the Reset sequence.
\<close>

theorem print_shorthands_counterexample:
  "PRINT_BRED [''x''] [] \<noteq> printLine_spec (styled_spec [Bold, FgYellow] ''x'') [] \<and>
   PRINT_BGREEN [''x''] [] \<noteq> printLine_spec (styled_spec [Bold, FgYellow] ''x'') [] \<and>
   PRINT_BBLUE [''x''] [] \<noteq> printLine_spec (styled_spec [Bold, FgYellow] ''x'') [] \<and>
   PRINT_RED [''x''] [] \<noteq> printLine_spec (styled_spec [Bold, FgYellow] ''x'') [] \<and>
   PRINT_GREEN [''x''] [] \<noteq> printLine_spec (styled_spec [Bold, FgYellow] ''x'') [] \<and>
   PRINT_BLUE [''x''] [] \<noteq> printLine_spec (styled_spec [Bold, FgYellow] ''x'') [] \<and>
   PRINT ''x'' [] [] \<noteq> printLine_spec (styled_spec [Bold, FgYellow] ''x'') [] \<and>
   PRINT_BRED [''x''] [] \<noteq> printLine_spec (styled_spec [FgYellow] ''x'') [] \<and>
   PRINT_BGREEN [''x''] [] \<noteq> printLine_spec (styled_spec [FgYellow] ''x'') [] \<and>
   PRINT_BBLUE [''x''] [] \<noteq> printLine_spec (styled_spec [FgYellow] ''x'') [] \<and>
   PRINT_RED [''x''] [] \<noteq> printLine_spec (styled_spec [FgYellow] ''x'') [] \<and>
   PRINT_GREEN [''x''] [] \<noteq> printLine_spec (styled_spec [FgYellow] ''x'') [] \<and>
   PRINT_BLUE [''x''] [] \<noteq> printLine_spec (styled_spec [FgYellow] ''x'') [] \<and>
   PRINT ''x'' [] [] \<noteq> printLine_spec (styled_spec [FgYellow] ''x'') [] \<and>
   PRINT_RED [[CHR ''a'', CHR 0x00, CHR ''b'']] [] = CHR 0x1B # ''[31ma'' @ [CHR 0x0A] \<and>
   PRINT_RED [[CHR ''a'', CHR 0x00, CHR ''b'']] []
     \<noteq> printLine_spec (styled_spec [FgRed] [CHR ''a'', CHR 0x00, CHR ''b'']) []"
  by (simp add: print_defs styled_defs PRINT_def printLine_spec_def styled_spec_def escape_def
      endl_def put_def c_str_def newline_def RST_def MOD_def code_defs ESC_byte NUL_byte)

text \<open>
  Claim C3, amended. The header has six colour print macros, bold and unbolded for red,
  green and blue. Each of them, on a chain of fragments none of which contains a zero byte,
  takes the stream to where \<open>printLine\<close> takes it on \<open>styled\<close> of the concatenated
  fragments, with the attribute sequence \<open>[Bold, colour]\<close> for the bold macros and
  \<open>[colour]\<close> for the unbolded ones.
\<close>

theorem print_shorthands:
  assumes "\<forall>f\<in>set va. NUL \<notin> set f"
  shows "PRINT_BRED va out = printLine_spec (styled_spec [Bold, FgRed] (concat va)) out \<and>
         PRINT_BGREEN va out = printLine_spec (styled_spec [Bold, FgGreen] (concat va)) out \<and>
         PRINT_BBLUE va out = printLine_spec (styled_spec [Bold, FgBlue] (concat va)) out \<and>
         PRINT_RED va out = printLine_spec (styled_spec [FgRed] (concat va)) out \<and>
         PRINT_GREEN va out = printLine_spec (styled_spec [FgGreen] (concat va)) out \<and>
         PRINT_BLUE va out = printLine_spec (styled_spec [FgBlue] (concat va)) out"
proof -
  have r: "NUL \<notin> set RST" by (rule NUL_notin_RST)
  have e: "escape Reset = RST" by (simp add: escape_def RST_def)
  show ?thesis
    by (simp add: print_bytes [OF butlast_free [OF assms]] c_str_id NUL_notin_codes r assms
        printLine_spec_def styled_spec_def e) (simp add: escape_def)
qed

theorem print_shorthands_witness:
  "PRINT_BRED [''Test'', '' 1''] ''>'' = printLine_spec (styled_spec [Bold, FgRed] ''Test 1'') ''>'' \<and>
   PRINT_BGREEN [''Test'', '' 1''] ''>'' = printLine_spec (styled_spec [Bold, FgGreen] ''Test 1'') ''>'' \<and>
   PRINT_BBLUE [''Test'', '' 1''] ''>'' = printLine_spec (styled_spec [Bold, FgBlue] ''Test 1'') ''>'' \<and>
   PRINT_RED [''Test'', '' 1''] ''>'' = printLine_spec (styled_spec [FgRed] ''Test 1'') ''>'' \<and>
   PRINT_GREEN [''Test'', '' 1''] ''>'' = printLine_spec (styled_spec [FgGreen] ''Test 1'') ''>'' \<and>
   PRINT_BLUE [''Test'', '' 1''] ''>'' = printLine_spec (styled_spec [FgBlue] ''Test 1'') ''>'' \<and>
   PRINT_RED [''Test'', '' 1''] ''>''
     = ''>'' @ CHR 0x1B # ''[31mTest 1'' @ CHR 0x1B # ''[0m'' @ [CHR 0x0A]"
proof -
  have h: "\<forall>f\<in>set [''Test'', '' 1'']. NUL \<notin> set f"
    by (simp add: NUL_byte)
  have v: "printLine_spec (styled_spec [FgRed] ''Test 1'') ''>''
     = ''>'' @ CHR 0x1B # ''[31mTest 1'' @ CHR 0x1B # ''[0m'' @ [CHR 0x0A]"
    by (simp add: printLine_spec_def styled_spec_def escape_def newline_def MOD_def
        FGRED_def ESC_byte)
  from print_shorthands [OF h, of "''>''"] v show ?thesis by simp
qed

text \<open>
  Claim C5, as stated, fails for a fragment with a zero byte before the last fragment:
  \<open>PRINT_RED("a\0" << "b")\<close> writes \<open>"\x1B[31mab\x1B[0m\n"\<close>, since each operand is
  written up to its own first zero byte, while \<open>PRINT_RED("a\0b")\<close> on the concatenation
  writes \<open>"\x1B[31ma\n"\<close>.
\<close>

theorem fragments_counterexample:
  "concat [[CHR ''a'', CHR 0x00], ''b''] = [CHR ''a'', CHR 0x00, CHR ''b''] \<and>
   PRINT_RED [[CHR ''a'', CHR 0x00], ''b''] [] = CHR 0x1B # ''[31mab'' @ CHR 0x1B # ''[0m'' @ [CHR 0x0A] \<and>
   PRINT_RED [[CHR ''a'', CHR 0x00, CHR ''b'']] [] = CHR 0x1B # ''[31ma'' @ [CHR 0x0A] \<and>
   PRINT_RED [[CHR ''a'', CHR 0x00], ''b''] [] \<noteq> PRINT_RED [concat [[CHR ''a'', CHR 0x00], ''b'']] []"
  by (simp add: PRINT_RED_def MOD_RED_def endl_def put_def c_str_def
      newline_def RST_def MOD_def FGRED_def ESC_byte NUL_byte)

text \<open>
  Claim C5, amended. For each of the six colour print macros, the call on a chain of
  fragments in which no fragment but the last contains a zero byte leaves the stream as the
  call on the single concatenated fragment does; so for the fragments \<open>"789"\<close> and
  \<open>"258"\<close> and the single string \<open>"789258"\<close>.
\<close>

theorem fragments_concatenated:
  assumes "\<forall>f\<in>set (butlast va). NUL \<notin> set f"
  shows "PRINT_BRED va out = PRINT_BRED [concat va] out \<and>
         PRINT_BGREEN va out = PRINT_BGREEN [concat va] out \<and>
         PRINT_BBLUE va out = PRINT_BBLUE [concat va] out \<and>
         PRINT_RED va out = PRINT_RED [concat va] out \<and>
         PRINT_GREEN va out = PRINT_GREEN [concat va] out \<and>
         PRINT_BLUE va out = PRINT_BLUE [concat va] out"
  by (simp add: print_bytes [OF assms] print_bytes [OF butlast_single])

theorem fragments_concatenated_witness:
  "PRINT_BRED [''789'', ''258''] [] = PRINT_BRED [''789258''] [] \<and>
   PRINT_BGREEN [''789'', ''258''] [] = PRINT_BGREEN [''789258''] [] \<and>
   PRINT_BBLUE [''789'', ''258''] [] = PRINT_BBLUE [''789258''] [] \<and>
   PRINT_RED [''789'', ''258''] [] = PRINT_RED [''789258''] [] \<and>
   PRINT_GREEN [''789'', ''258''] [] = PRINT_GREEN [''789258''] [] \<and>
   PRINT_BLUE [''789'', ''258''] [] = PRINT_BLUE [''789258''] [] \<and>
   PRINT_BGREEN [''789'', ''258''] []
     = CHR 0x1B # ''[1m'' @ CHR 0x1B # ''[32m789258'' @ CHR 0x1B # ''[0m'' @ [CHR 0x0A]"
proof -
  have h: "\<forall>f\<in>set (butlast [''789'', ''258'']). NUL \<notin> set f"
    by (simp add: NUL_byte)
  have v: "PRINT_BGREEN [''789'', ''258''] []
     = CHR 0x1B # ''[1m'' @ CHR 0x1B # ''[32m789258'' @ CHR 0x1B # ''[0m'' @ [CHR 0x0A]"
    by (simp add: PRINT_BGREEN_def B_MOD_GREEN_def endl_def put_def c_str_def
      newline_def RST_def MOD_def BOLD_def FGGREEN_def ESC_byte NUL_byte)
  from fragments_concatenated [OF h, of "[]"] v show ?thesis by simp
qed

text \<open>
  Claim C10. When no fragment contains the byte \<open>ESC\<close>, every escape sequence in the
  expansion of each of the eight composition macros and in the bytes written by each of the
  six colour print macros carries one of the codes 1, 31, 32, 33, 34, 0, and \<open>PRINT\<close>
  writes no escape sequence at all. None of these codes is the code of Underline, of
  Foreground-Default or of a background colour.
\<close>

theorem unused_codes_never_emitted:
  assumes "\<forall>f\<in>set (x # va). ESC \<notin> set f"
  shows "only_emitted_codes (concat (B_MOD_RED va)) \<and>
         only_emitted_codes (concat (B_MOD_GREEN va)) \<and>
         only_emitted_codes (concat (B_MOD_YELLOW va)) \<and>
         only_emitted_codes (concat (B_MOD_BLUE va)) \<and>
         only_emitted_codes (concat (MOD_RED va)) \<and>
         only_emitted_codes (concat (MOD_GREEN va)) \<and>
         only_emitted_codes (concat (MOD_YELLOW va)) \<and>
         only_emitted_codes (concat (MOD_BLUE va)) \<and>
         only_emitted_codes (written (PRINT_BRED va) out) \<and>
         only_emitted_codes (written (PRINT_BGREEN va) out) \<and>
         only_emitted_codes (written (PRINT_BBLUE va) out) \<and>
         only_emitted_codes (written (PRINT_RED va) out) \<and>
         only_emitted_codes (written (PRINT_GREEN va) out) \<and>
         only_emitted_codes (written (PRINT_BLUE va) out) \<and>
         sgr_codes (written (PRINT x va) out) = [] \<and>
         set emitted_codes \<inter> set unused_codes = {}"
proof -
  from assms have va: "\<forall>f\<in>set va. ESC \<notin> set f" by simp
  have "set emitted_codes \<inter> set unused_codes = {}"
    by (simp add: emitted_codes_def unused_codes_def code_defs)
  with styled_only_emitted [OF va] print_only_emitted [OF va] plain_no_codes [OF assms]
  show ?thesis by simp
qed

theorem unused_codes_never_emitted_witness:
  "sgr_codes (concat (B_MOD_YELLOW [''789'', ''258''])) = [Some ''1'', Some ''33'', Some ''0''] \<and>
   only_emitted_codes (concat (B_MOD_YELLOW [''789'', ''258''])) \<and>
   sgr_codes (written (PRINT_BBLUE [''789'', ''258'']) ''>'') = [Some ''1'', Some ''34'', Some ''0''] \<and>
   only_emitted_codes (written (PRINT_BBLUE [''789'', ''258'']) ''>'') \<and>
   only_emitted_codes (written (PRINT_GREEN [''789'', ''258'']) ''>'') \<and>
   sgr_codes (written (PRINT ''abc'' [''789'', ''258'']) ''>'') = []"
proof -
  have h: "\<forall>f\<in>set [''abc'', ''789'', ''258'']. ESC \<notin> set f"
    by (simp add: ESC_byte)
  have v: "sgr_codes (concat (B_MOD_YELLOW [''789'', ''258''])) = [Some ''1'', Some ''33'', Some ''0'']"
    "sgr_codes (written (PRINT_BBLUE [''789'', ''258'']) ''>'') = [Some ''1'', Some ''34'', Some ''0'']"
    by (simp_all add: written_def PRINT_BBLUE_def B_MOD_BLUE_def B_MOD_YELLOW_def endl_def put_def
        c_str_def newline_def RST_def MOD_def code_defs sgr_code_def ESC_byte NUL_byte)
  from unused_codes_never_emitted [OF h, of "''>''"] v show ?thesis by simp
qed

end
